theory Spec2Isabelle
  imports Complex_Main "HOL-Library.Multiset" "HOL-Library.Log_Nat"
begin

section \<open>The NDVI time-series endpoint\<close>

text \<open>
  The handler of \<^verbatim>\<open>POST /api/ndvi-timeseries\<close> fetches one feature per satellite
  acquisition and then, on the fetched list, filters, sorts and summarises. The part
  modelled here starts at the fetched \<^verbatim>\<open>results.features\<close> and ends at the JSON the
  handler sends.

  Numbers: the handler is modelled twice. In the first model a JavaScript number is a
  \<^typ>\<open>real\<close>, the arithmetic is exact and every value is finite (JSON carries no NaN
  and no infinity); it serves the properties that do not depend on rounding. The second
  model, further down, has the same statements over IEEE 754 double precision, every
  operation rounded as the runtime rounds it; it serves the properties that speak about
  exact values of the computed delta. The value \<^verbatim>\<open>null\<close> of \<^verbatim>\<open>ndvi_mean\<close> is
  \<^term>\<open>None\<close> in both.

  Dates: a date string \<^verbatim>\<open>YYYY-MM-dd\<close> is represented by the time value that
  \<^verbatim>\<open>new Date(date)\<close> gives it, an integer; equal strings are equal integers, and
  the comparator \<^verbatim>\<open>new Date(a.date) - new Date(b.date)\<close> orders by that integer.
\<close>

type_synonym date = int

text \<open>
  \<^verbatim>\<open>{ date: ..., ndvi_mean: ... }\<close>: the two properties of a feature that the handler
  reads, and also the shape of an entry of \<^verbatim>\<open>timeseries\<close>.
\<close>

record item =
  date :: date
  ndvi_mean :: "real option"

record feature =
  properties :: item

record date_range =
  start :: date
  end' :: date

record summary =
  mean :: real
  change_detected :: bool
  confidence :: real
  total_observations :: nat
  date_range :: date_range

record 'g response =
  aoi :: 'g
  ndvi_timeseries :: "item list"
  summary :: summary

text \<open>
  The handler answers with status 404 and the message
  \<^verbatim>\<open>No satellite data found for the selected area and date range.\<close> when nothing is
  left after filtering.
\<close>

datatype error = NoSatelliteData

subsection \<open>JavaScript array and Math operations used by the handler\<close>

text \<open>\<^verbatim>\<open>xs.reduce((a, b) => a + b, 0)\<close>: a left fold from 0.\<close>

definition reduce_add :: "real list \<Rightarrow> real" where
  "reduce_add xs = foldl (\<lambda>a b. a + b) 0 xs"

text \<open>
  \<^verbatim>\<open>xs.slice(b, e)\<close> and \<^verbatim>\<open>xs.slice(b)\<close> for indices that are not negative: the
  elements from index \<open>b\<close> up to, not including, index \<open>e\<close> (or up to the end).
\<close>

definition slice2 :: "'a list \<Rightarrow> nat \<Rightarrow> nat \<Rightarrow> 'a list" where
  "slice2 xs b e = take (e - b) (drop b xs)"

definition slice1 :: "'a list \<Rightarrow> nat \<Rightarrow> 'a list" where
  "slice1 xs b = drop b xs"

subsection \<open>The handler, statement by statement\<close>

text \<open>
  \<^verbatim>\<open>results.features.map(feature => ({date: ..., ndvi_mean: ...}))
     .filter(item => item.ndvi_mean !== null)
     .sort((a, b) => new Date(a.date) - new Date(b.date))\<close>.
  The sort of the runtime (Node 18) is stable, as \<^const>\<open>sort_key\<close> is.
\<close>

definition timeseries :: "feature list \<Rightarrow> item list" where
  "timeseries features =
     sort_key date
       (filter (\<lambda>item. ndvi_mean item \<noteq> None)
          (map (\<lambda>feature. \<lparr>date = date (properties feature),
                            ndvi_mean = ndvi_mean (properties feature)\<rparr>) features))"

text \<open>\<^verbatim>\<open>timeseries.map(item => item.ndvi_mean).filter(val => val !== null)\<close>\<close>

definition ndviValues :: "item list \<Rightarrow> real list" where
  "ndviValues ts = map the (filter (\<lambda>val. val \<noteq> None) (map ndvi_mean ts))"

text \<open>\<^verbatim>\<open>ndviValues.length > 0 ? ndviValues.reduce(...) / ndviValues.length : 0\<close>\<close>

definition meanNdvi :: "real list \<Rightarrow> real" where
  "meanNdvi vs = (if length vs > 0 then reduce_add vs / real (length vs) else 0)"

text \<open>\<^verbatim>\<open>Math.floor(ndviValues.length / 2)\<close>\<close>

definition midPoint :: "real list \<Rightarrow> nat" where
  "midPoint vs = nat \<lfloor>real (length vs) / 2\<rfloor>"

definition firstHalf :: "real list \<Rightarrow> real list" where
  "firstHalf vs = slice2 vs 0 (midPoint vs)"

definition secondHalf :: "real list \<Rightarrow> real list" where
  "secondHalf vs = slice1 vs (midPoint vs)"

definition firstHalfMean :: "real list \<Rightarrow> real" where
  "firstHalfMean vs =
     (if length (firstHalf vs) > 0
      then reduce_add (firstHalf vs) / real (length (firstHalf vs)) else 0)"

definition secondHalfMean :: "real list \<Rightarrow> real" where
  "secondHalfMean vs =
     (if length (secondHalf vs) > 0
      then reduce_add (secondHalf vs) / real (length (secondHalf vs)) else 0)"

text \<open>\<^verbatim>\<open>Math.abs(firstHalfMean - secondHalfMean) > 0.1\<close>\<close>

definition changeDetected :: "real list \<Rightarrow> bool" where
  "changeDetected vs = (\<bar>firstHalfMean vs - secondHalfMean vs\<bar> > 0.1)"

text \<open>\<^verbatim>\<open>Math.min(Math.abs(firstHalfMean - secondHalfMean) * 2, 1)\<close>\<close>

definition confidence_val :: "real list \<Rightarrow> real" where
  "confidence_val vs = min (\<bar>firstHalfMean vs - secondHalfMean vs\<bar> * 2) 1"

text \<open>
  The whole of it: the 404 answer when \<^verbatim>\<open>timeseries.length === 0\<close>, the JSON answer
  otherwise. \<open>aoi\<close>, \<open>startDate\<close> and \<open>endDate\<close> come from the request body.
\<close>

definition api_ndvi_timeseries ::
  "'g \<Rightarrow> date \<Rightarrow> date \<Rightarrow> feature list \<Rightarrow> error + 'g response" where
  "api_ndvi_timeseries aoi_req startDate endDate features =
     (let ts = timeseries features in
      if length ts = 0 then Inl NoSatelliteData
      else
        let vs = ndviValues ts in
        Inr \<lparr>aoi = aoi_req,
             ndvi_timeseries = ts,
             summary = \<lparr>mean = meanNdvi vs,
                        change_detected = changeDetected vs,
                        confidence = confidence_val vs,
                        total_observations = length ts,
                        date_range = \<lparr>start = startDate, end' = endDate\<rparr>\<rparr>\<rparr>)"

text \<open>An acquisition with the given date and value, as the fetch delivers it.\<close>

definition obs :: "date \<Rightarrow> real option \<Rightarrow> feature" where
  "obs d v = \<lparr>properties = \<lparr>date = d, ndvi_mean = v\<rparr>\<rparr>"

section \<open>Specification-side notions\<close>

text \<open>
  The valid samples of an input are those whose value is not null; the normalized
  series is \<^const>\<open>timeseries\<close> of the input, and its values are what the statistics
  are computed from.
\<close>

definition valid_samples :: "feature list \<Rightarrow> feature list" where
  "valid_samples features = filter (\<lambda>f. ndvi_mean (properties f) \<noteq> None) features"

definition series_values :: "feature list \<Rightarrow> real list" where
  "series_values features = ndviValues (timeseries features)"

text \<open>
  The arithmetic mean of a list of values, meant for a list that is not empty, and the
  two segments of a series of \<open>n\<close> values at the index \<open>floor (n / 2)\<close>.
\<close>

definition arith_mean :: "real list \<Rightarrow> real" where
  "arith_mean xs = sum_list xs / real (length xs)"

definition first_segment :: "real list \<Rightarrow> real list" where
  "first_segment vs = take (length vs div 2) vs"

definition second_segment :: "real list \<Rightarrow> real list" where
  "second_segment vs = drop (length vs div 2) vs"

text \<open>
  The raw delta is the distance of the two segment means. The mean of a segment is its
  arithmetic mean; for the empty segment, which has none, the value is 0.
\<close>

definition segment_mean :: "real list \<Rightarrow> real" where
  "segment_mean xs = (case xs of [] \<Rightarrow> 0 | _ # _ \<Rightarrow> arith_mean xs)"

definition raw_delta :: "real list \<Rightarrow> real" where
  "raw_delta vs = \<bar>segment_mean (first_segment vs) - segment_mean (second_segment vs)\<bar>"

section \<open>The handler in double precision\<close>

subsection \<open>Double-precision numbers\<close>

text \<open>
  A JavaScript number is an IEEE 754 binary64 value: a finite value, one of the two
  infinities, or NaN. A finite value is represented by the rational number it denotes;
  the two zeros are one value here (they compare equal, JSON prints both as \<^verbatim>\<open>0\<close>, and
  the handler never divides by a computed zero, so nothing it sends tells them apart).
\<close>

datatype f64 = Fin rat | PInf | NInf | NaN

text \<open>\<open>2\<close> to an integer power, and \<open>floor (log2 x)\<close> for a positive rational \<open>x\<close>.\<close>

definition pow2 :: "int \<Rightarrow> rat" where
  "pow2 k = (if k \<ge> 0 then 2 ^ nat k else 1 / 2 ^ nat (- k))"

definition ilog2 :: "rat \<Rightarrow> int" where
  "ilog2 x = (if x \<ge> 1 then bitlen \<lfloor>x\<rfloor> - 1 else - bitlen (\<lceil>1 / x\<rceil> - 1))"

text \<open>The nearest integer, a tie going to the even one.\<close>

definition round_half_even :: "rat \<Rightarrow> int" where
  "round_half_even x =
     (let f = \<lfloor>x\<rfloor>; d = x - of_int f in
      if d < 1 / 2 then f else if d > 1 / 2 then f + 1
      else if even f then f else f + 1)"

text \<open>
  Rounding of an exact result to the nearest double, ties to even. A double has 53
  significant bits, so the last bit of a value of magnitude \<open>a\<close> has the exponent
  \<open>floor (log2 a) - 52\<close>, and never less than \<open>-1074\<close> (subnormal values). With that
  exponent \<open>e\<close> the result is \<open>m * 2^e\<close> for the integer \<open>m\<close> nearest to \<open>a / 2^e\<close>. The
  largest double is \<open>(2^53 - 1) * 2^971\<close>: a rounded value beyond it, which is \<open>e > 971\<close>,
  or \<open>e = 971\<close> with \<open>m\<close> rounded up to \<open>2^53\<close>, is an infinity.
\<close>

definition rnd :: "rat \<Rightarrow> f64" where
  "rnd r =
     (if r = 0 then Fin 0
      else
        let a = \<bar>r\<bar>;
            e = max (ilog2 a - 52) (- 1074);
            m = round_half_even (a / pow2 e)
        in if e > 971 \<or> (e = 971 \<and> m \<ge> 2 ^ 53) then (if r > 0 then PInf else NInf)
           else Fin (if r > 0 then of_int m * pow2 e else - (of_int m * pow2 e)))"

text \<open>
  The operations the handler uses: \<^verbatim>\<open>+\<close>, \<^verbatim>\<open>-\<close>, \<^verbatim>\<open>Math.abs\<close>, \<^verbatim>\<open>*\<close>, division by an
  array length, \<^verbatim>\<open>>\<close> and \<^verbatim>\<open>Math.min\<close>; and the comparison \<^verbatim>\<open>>=\<close>, which the
  handler does not use but a property below is stated with. Each arithmetic operation
  is the exact operation followed by one rounding; NaN propagates, and every comparison
  with NaN is false.
\<close>

fun fadd :: "f64 \<Rightarrow> f64 \<Rightarrow> f64" where
  "fadd (Fin a) (Fin b) = rnd (a + b)"
| "fadd NaN y = NaN"
| "fadd x NaN = NaN"
| "fadd PInf NInf = NaN"
| "fadd NInf PInf = NaN"
| "fadd PInf y = PInf"
| "fadd NInf y = NInf"
| "fadd (Fin a) PInf = PInf"
| "fadd (Fin a) NInf = NInf"

fun fneg :: "f64 \<Rightarrow> f64" where
  "fneg (Fin a) = Fin (- a)"
| "fneg PInf = NInf"
| "fneg NInf = PInf"
| "fneg NaN = NaN"

definition fsub :: "f64 \<Rightarrow> f64 \<Rightarrow> f64" where
  "fsub x y = fadd x (fneg y)"

fun fabs :: "f64 \<Rightarrow> f64" where
  "fabs (Fin a) = Fin \<bar>a\<bar>"
| "fabs PInf = PInf"
| "fabs NInf = PInf"
| "fabs NaN = NaN"

fun inf_of_sign :: "rat \<Rightarrow> f64" where
  "inf_of_sign s = (if s = 0 then NaN else if s > 0 then PInf else NInf)"

fun fmul :: "f64 \<Rightarrow> f64 \<Rightarrow> f64" where
  "fmul (Fin a) (Fin b) = rnd (a * b)"
| "fmul NaN y = NaN"
| "fmul x NaN = NaN"
| "fmul PInf (Fin b) = inf_of_sign b"
| "fmul NInf (Fin b) = inf_of_sign (- b)"
| "fmul (Fin a) PInf = inf_of_sign a"
| "fmul (Fin a) NInf = inf_of_sign (- a)"
| "fmul PInf PInf = PInf"
| "fmul NInf NInf = PInf"
| "fmul PInf NInf = NInf"
| "fmul NInf PInf = NInf"

text \<open>
  \<^verbatim>\<open>x / xs.length\<close>: an array length is an integer below \<open>2^32\<close>, so it is a double as
  it stands.
\<close>

fun fdiv_length :: "f64 \<Rightarrow> nat \<Rightarrow> f64" where
  "fdiv_length NaN n = NaN"
| "fdiv_length PInf n = PInf"
| "fdiv_length NInf n = NInf"
| "fdiv_length (Fin a) n = (if n = 0 then inf_of_sign a else rnd (a / of_nat n))"

fun fgt :: "f64 \<Rightarrow> f64 \<Rightarrow> bool" where
  "fgt (Fin a) (Fin b) = (a > b)"
| "fgt NaN y = False"
| "fgt x NaN = False"
| "fgt PInf PInf = False"
| "fgt PInf y = True"
| "fgt NInf y = False"
| "fgt (Fin a) PInf = False"
| "fgt (Fin a) NInf = True"

definition fge :: "f64 \<Rightarrow> f64 \<Rightarrow> bool" where
  "fge x y = (x \<noteq> NaN \<and> y \<noteq> NaN \<and> (fgt x y \<or> x = y))"

fun fmin :: "f64 \<Rightarrow> f64 \<Rightarrow> f64" where
  "fmin NaN y = NaN"
| "fmin x NaN = NaN"
| "fmin x y = (if fgt x y then y else x)"

subsection \<open>The handler, statement by statement, over doubles\<close>

text \<open>
  The same records and the same statements as above, with \<^typ>\<open>f64\<close> for the numbers.
  The literals \<^verbatim>\<open>0\<close>, \<^verbatim>\<open>1\<close> and \<^verbatim>\<open>2\<close> are doubles as they stand; the literal
  \<^verbatim>\<open>0.1\<close> is the double nearest to one tenth, \<^term>\<open>rnd (1 / 10)\<close>.
\<close>

record item64 =
  date64 :: date
  ndvi_mean64 :: "f64 option"

record feature64 =
  properties64 :: item64

record summary64 =
  mean64 :: f64
  change_detected64 :: bool
  confidence64 :: f64
  total_observations64 :: nat
  date_range64 :: date_range

record 'g response64 =
  aoi64 :: 'g
  ndvi_timeseries64 :: "item64 list"
  summary64 :: summary64

text \<open>\<^verbatim>\<open>xs.reduce((a, b) => a + b, 0)\<close>: a left fold from 0, each addition rounded.\<close>

definition reduce_add64 :: "f64 list \<Rightarrow> f64" where
  "reduce_add64 xs = foldl (\<lambda>a b. fadd a b) (Fin 0) xs"

text \<open>
  \<^verbatim>\<open>results.features.map(...).filter(item => item.ndvi_mean !== null)
     .sort((a, b) => new Date(a.date) - new Date(b.date))\<close>
\<close>

definition timeseries64 :: "feature64 list \<Rightarrow> item64 list" where
  "timeseries64 features =
     sort_key date64
       (filter (\<lambda>item. ndvi_mean64 item \<noteq> None)
          (map (\<lambda>feature. \<lparr>date64 = date64 (properties64 feature),
                            ndvi_mean64 = ndvi_mean64 (properties64 feature)\<rparr>) features))"

text \<open>\<^verbatim>\<open>timeseries.map(item => item.ndvi_mean).filter(val => val !== null)\<close>\<close>

definition ndviValues64 :: "item64 list \<Rightarrow> f64 list" where
  "ndviValues64 ts = map the (filter (\<lambda>val. val \<noteq> None) (map ndvi_mean64 ts))"

text \<open>\<^verbatim>\<open>ndviValues.length > 0 ? ndviValues.reduce(...) / ndviValues.length : 0\<close>\<close>

definition meanNdvi64 :: "f64 list \<Rightarrow> f64" where
  "meanNdvi64 vs = (if length vs > 0 then fdiv_length (reduce_add64 vs) (length vs) else Fin 0)"

text \<open>
  \<^verbatim>\<open>Math.floor(ndviValues.length / 2)\<close>, \<^verbatim>\<open>ndviValues.slice(0, midPoint)\<close> and
  \<^verbatim>\<open>ndviValues.slice(midPoint)\<close>; half of a length is exact in double precision.
\<close>

definition midPoint64 :: "f64 list \<Rightarrow> nat" where
  "midPoint64 vs = nat \<lfloor>real (length vs) / 2\<rfloor>"

definition firstHalf64 :: "f64 list \<Rightarrow> f64 list" where
  "firstHalf64 vs = slice2 vs 0 (midPoint64 vs)"

definition secondHalf64 :: "f64 list \<Rightarrow> f64 list" where
  "secondHalf64 vs = slice1 vs (midPoint64 vs)"

text \<open>
  \<^verbatim>\<open>firstHalf.length > 0 ? firstHalf.reduce(...) / firstHalf.length : 0\<close>, and the same
  for the second half.
\<close>

definition firstHalfMean64 :: "f64 list \<Rightarrow> f64" where
  "firstHalfMean64 vs =
     (if length (firstHalf64 vs) > 0
      then fdiv_length (reduce_add64 (firstHalf64 vs)) (length (firstHalf64 vs)) else Fin 0)"

definition secondHalfMean64 :: "f64 list \<Rightarrow> f64" where
  "secondHalfMean64 vs =
     (if length (secondHalf64 vs) > 0
      then fdiv_length (reduce_add64 (secondHalf64 vs)) (length (secondHalf64 vs)) else Fin 0)"

text \<open>\<^verbatim>\<open>Math.abs(firstHalfMean - secondHalfMean) > 0.1\<close>\<close>

definition changeDetected64 :: "f64 list \<Rightarrow> bool" where
  "changeDetected64 vs =
     fgt (fabs (fsub (firstHalfMean64 vs) (secondHalfMean64 vs))) (rnd (1 / 10))"

text \<open>\<^verbatim>\<open>Math.min(Math.abs(firstHalfMean - secondHalfMean) * 2, 1)\<close>\<close>

definition confidence_val64 :: "f64 list \<Rightarrow> f64" where
  "confidence_val64 vs =
     fmin (fmul (fabs (fsub (firstHalfMean64 vs) (secondHalfMean64 vs))) (Fin 2)) (Fin 1)"

text \<open>The 404 answer when \<^verbatim>\<open>timeseries.length === 0\<close>, the JSON answer otherwise.\<close>

definition api_ndvi_timeseries64 ::
  "'g \<Rightarrow> date \<Rightarrow> date \<Rightarrow> feature64 list \<Rightarrow> error + 'g response64" where
  "api_ndvi_timeseries64 aoi_req startDate endDate features =
     (let ts = timeseries64 features in
      if length ts = 0 then Inl NoSatelliteData
      else
        let vs = ndviValues64 ts in
        Inr \<lparr>aoi64 = aoi_req,
             ndvi_timeseries64 = ts,
             summary64 = \<lparr>mean64 = meanNdvi64 vs,
                          change_detected64 = changeDetected64 vs,
                          confidence64 = confidence_val64 vs,
                          total_observations64 = length ts,
                          date_range64 = \<lparr>start = startDate, end' = endDate\<rparr>\<rparr>\<rparr>)"

text \<open>
  An acquisition with the given date and value, as the fetch delivers it: the JSON
  number is read as the double nearest to it.
\<close>

definition obs64 :: "date \<Rightarrow> rat option \<Rightarrow> feature64" where
  "obs64 d x = \<lparr>properties64 = \<lparr>date64 = d, ndvi_mean64 = map_option rnd x\<rparr>\<rparr>"

subsection \<open>Specification-side notions over doubles\<close>

text \<open>
  The valid samples, the values of the normalized series, the arithmetic mean (the sum
  accumulated from the left, starting from 0, divided by the length), the two segments
  at the index \<open>floor (n / 2)\<close>, and the raw delta, as above.
\<close>

definition valid_samples64 :: "feature64 list \<Rightarrow> feature64 list" where
  "valid_samples64 features = filter (\<lambda>f. ndvi_mean64 (properties64 f) \<noteq> None) features"

definition series_values64 :: "feature64 list \<Rightarrow> f64 list" where
  "series_values64 features = ndviValues64 (timeseries64 features)"

primrec sum_from :: "f64 \<Rightarrow> f64 list \<Rightarrow> f64" where
  "sum_from acc [] = acc"
| "sum_from acc (x # xs) = sum_from (fadd acc x) xs"

definition arith_mean64 :: "f64 list \<Rightarrow> f64" where
  "arith_mean64 xs = fdiv_length (sum_from (Fin 0) xs) (length xs)"

definition first_segment64 :: "f64 list \<Rightarrow> f64 list" where
  "first_segment64 vs = take (length vs div 2) vs"

definition second_segment64 :: "f64 list \<Rightarrow> f64 list" where
  "second_segment64 vs = drop (length vs div 2) vs"

definition segment_mean64 :: "f64 list \<Rightarrow> f64" where
  "segment_mean64 xs = (case xs of [] \<Rightarrow> Fin 0 | _ # _ \<Rightarrow> arith_mean64 xs)"

definition raw_delta64 :: "f64 list \<Rightarrow> f64" where
  "raw_delta64 vs =
     fabs (fsub (segment_mean64 (first_segment64 vs)) (segment_mean64 (second_segment64 vs)))"

section \<open>Basic facts\<close>

lemma reduce_add_acc: "foldl (\<lambda>a b. a + b) (acc::real) xs = acc + sum_list xs"
  by (induction xs arbitrary: acc) simp_all

lemma reduce_add_sum_list: "reduce_add xs = sum_list xs"
  by (simp add: reduce_add_def reduce_add_acc)

lemma midPoint_div: "midPoint vs = length vs div 2"
proof -
  have "\<lfloor>real (length vs) / real (2::nat)\<rfloor> = int (length vs div 2)"
    by (rule floor_divide_of_nat_eq)
  then show ?thesis by (simp add: midPoint_def)
qed

lemma firstHalf_take: "firstHalf vs = take (length vs div 2) vs"
  by (simp add: firstHalf_def slice2_def midPoint_div)

lemma secondHalf_drop: "secondHalf vs = drop (length vs div 2) vs"
  by (simp add: secondHalf_def slice1_def midPoint_div)

lemma length_firstHalf: "length (firstHalf vs) = length vs div 2"
  by (simp add: firstHalf_take)

lemma length_secondHalf: "length (secondHalf vs) = length vs - length vs div 2"
  by (simp add: secondHalf_drop)

lemma item_rebuild: "\<lparr>date = date (p::item), ndvi_mean = ndvi_mean p\<rparr> = p"
  by (cases p) simp

lemma timeseries_filter:
  "timeseries features =
     sort_key date (map properties (valid_samples features))"
  by (simp add: timeseries_def valid_samples_def filter_map comp_def item_rebuild)

lemma length_timeseries: "length (timeseries features) = length (valid_samples features)"
  by (simp add: timeseries_filter)

lemma timeseries_non_null: "x \<in> set (timeseries features) \<Longrightarrow> ndvi_mean x \<noteq> None"
  by (auto simp add: timeseries_def)

lemma length_ndviValues: "length (ndviValues (timeseries features)) = length (timeseries features)"
proof -
  have "filter (\<lambda>val. val \<noteq> None) (map ndvi_mean (timeseries features))
          = map ndvi_mean (timeseries features)"
    by (rule filter_True) (auto dest: timeseries_non_null)
  then show ?thesis by (simp add: ndviValues_def)
qed

lemma segment_mean_guard:
  "(if length xs > 0 then reduce_add xs / real (length xs) else 0) = segment_mean xs"
  by (cases xs) (simp_all add: segment_mean_def arith_mean_def reduce_add_sum_list)

lemma firstHalfMean_segment: "firstHalfMean vs = segment_mean (first_segment vs)"
  unfolding firstHalfMean_def segment_mean_guard
  by (simp add: firstHalf_take first_segment_def)

lemma secondHalfMean_segment: "secondHalfMean vs = segment_mean (second_segment vs)"
  unfolding secondHalfMean_def segment_mean_guard
  by (simp add: secondHalf_drop second_segment_def)

lemma timeseries_Nil_iff: "timeseries features = [] \<longleftrightarrow> valid_samples features = []"
  using length_timeseries [of features] by (metis length_0_conv)

lemma changeDetected_raw_delta: "changeDetected vs = (raw_delta vs > 0.1)"
  by (simp add: changeDetected_def raw_delta_def firstHalfMean_segment secondHalfMean_segment)

lemma confidence_val_raw_delta: "confidence_val vs = min (raw_delta vs * 2) 1"
  by (simp add: confidence_val_def raw_delta_def firstHalfMean_segment secondHalfMean_segment)

lemma meanNdvi_arith_mean: "vs \<noteq> [] \<Longrightarrow> meanNdvi vs = arith_mean vs"
  by (simp add: meanNdvi_def arith_mean_def reduce_add_sum_list)

lemma api_ok:
  "valid_samples features \<noteq> [] \<Longrightarrow>
     api_ndvi_timeseries a s e features =
       Inr \<lparr>aoi = a,
            ndvi_timeseries = timeseries features,
            summary = \<lparr>mean = meanNdvi (series_values features),
                       change_detected = changeDetected (series_values features),
                       confidence = confidence_val (series_values features),
                       total_observations = length (timeseries features),
                       date_range = \<lparr>start = s, end' = e\<rparr>\<rparr>\<rparr>"
  by (simp add: api_ndvi_timeseries_def series_values_def Let_def timeseries_Nil_iff)

lemma api_Inr_valid:
  "api_ndvi_timeseries a s e features = Inr r \<Longrightarrow> valid_samples features \<noteq> []"
  by (auto simp add: api_ndvi_timeseries_def Let_def timeseries_Nil_iff split: if_splits)

lemma length_series_values: "length (series_values features) = length (valid_samples features)"
  by (simp add: series_values_def length_ndviValues length_timeseries)

lemma timeseries_perm_same_value:
  assumes "mset P = mset S"
    and "inj_on (\<lambda>f. date (properties f)) (set (valid_samples S))"
  shows "timeseries P = timeseries S"
proof -
  let ?xs = "map properties (valid_samples P)"
  let ?zs = "map properties (valid_samples S)"
  have m: "mset ?xs = mset ?zs"
    using assms(1) by (simp add: valid_samples_def)
  then have "set ?xs = set ?zs"
    by (rule mset_eq_setD)
  moreover have "inj_on (date \<circ> properties) (set (valid_samples S))"
    using assms(2) by (simp add: comp_def)
  then have "inj_on date (properties ` set (valid_samples S))"
    by (rule inj_on_imageI)
  then have "inj_on date (set ?zs)"
    by simp
  ultimately have inj: "inj_on date (set ?xs)"
    by simp
  have "sort_key date ?xs = sort_key date ?zs"
  proof (rule sort_key_inj_key_eq)
    show "mset ?xs = mset (sort_key date ?zs)"
      using m by simp
    show "inj_on date (set ?xs)"
      by (rule inj)
    show "sorted (map date (sort_key date ?zs))"
      by (rule sorted_sort_key)
  qed
  then show ?thesis
    by (simp add: timeseries_filter)
qed

text \<open>The definitions to unfold when the handler is run on a concrete input.\<close>

lemmas eval_defs = api_ndvi_timeseries_def timeseries_def ndviValues_def meanNdvi_def
        changeDetected_def confidence_val_def firstHalfMean_def secondHalfMean_def
        firstHalf_def secondHalf_def midPoint_def slice1_def slice2_def reduce_add_def
        obs_def Let_def valid_samples_def series_values_def

lemma ndviValues_single: "ndvi_mean p = Some v \<Longrightarrow> ndviValues [p] = [v]"
  by (simp add: ndviValues_def)

section \<open>Facts about the double-precision model\<close>

text \<open>
  \<^const>\<open>ilog2\<close> is the floor of the binary logarithm: \<open>2^(ilog2 x) \<le> x < 2^(ilog2 x + 1)\<close>
  for every positive \<open>x\<close>.
\<close>

lemma pow2_pos: "0 < pow2 k"
  by (simp add: pow2_def)

lemma pow2_nonneg_arg: "0 \<le> k \<Longrightarrow> pow2 k = 2 ^ nat k"
  by (simp add: pow2_def)

lemma pow2_powi: "pow2 k = 2 powi k"
  by (simp add: pow2_def power_int_def power_one_over)

lemma pow2_add: "pow2 (i + j) = pow2 i * pow2 j"
  by (simp add: pow2_powi power_int_add)

lemma ilog2_ge_one:
  assumes "1 \<le> x"
  shows "0 \<le> ilog2 x" and "pow2 (ilog2 x) \<le> x"
proof -
  from assms have n: "1 \<le> \<lfloor>x\<rfloor>"
    by simp
  then have pos: "0 < \<lfloor>x\<rfloor>"
    by simp
  have b: "0 < bitlen \<lfloor>x\<rfloor>"
    using pos bitlen_nonneg [of "\<lfloor>x\<rfloor>"] bitlen_eq_zero_iff [of "\<lfloor>x\<rfloor>"] by linarith
  show k: "0 \<le> ilog2 x"
    using assms b by (simp add: ilog2_def)
  have "2 ^ nat (bitlen \<lfloor>x\<rfloor> - 1) \<le> \<lfloor>x\<rfloor>"
    using bitlen_bounds [OF pos] by simp
  then have "(of_int (2 ^ nat (bitlen \<lfloor>x\<rfloor> - 1)) :: rat) \<le> of_int \<lfloor>x\<rfloor>"
    by (simp only: of_int_le_iff)
  also have "\<dots> \<le> x"
    by (rule of_int_floor_le)
  finally have "2 ^ nat (bitlen \<lfloor>x\<rfloor> - 1) \<le> x"
    by simp
  then show "pow2 (ilog2 x) \<le> x"
    using assms b by (simp add: ilog2_def pow2_def)
qed

lemma pow2_nonpos_arg: "k \<le> 0 \<Longrightarrow> pow2 k = 1 / 2 ^ nat (- k)"
  by (cases "k = 0") (simp_all add: pow2_def)

lemma ilog2_upper_ge_one:
  assumes "1 \<le> x"
  shows "x < pow2 (ilog2 x + 1)"
proof -
  from assms have pos: "0 < \<lfloor>x\<rfloor>"
    by simp
  have b: "0 < bitlen \<lfloor>x\<rfloor>"
    using pos bitlen_nonneg [of "\<lfloor>x\<rfloor>"] bitlen_eq_zero_iff [of "\<lfloor>x\<rfloor>"] by linarith
  have "\<lfloor>x\<rfloor> < 2 ^ nat (bitlen \<lfloor>x\<rfloor>)"
    using bitlen_bounds [OF pos] by simp
  then have "\<lfloor>x\<rfloor> + 1 \<le> 2 ^ nat (bitlen \<lfloor>x\<rfloor>)"
    by simp
  then have "(of_int (\<lfloor>x\<rfloor> + 1) :: rat) \<le> of_int (2 ^ nat (bitlen \<lfloor>x\<rfloor>))"
    by (simp only: of_int_le_iff)
  moreover have "x < of_int (\<lfloor>x\<rfloor> + 1)"
    by (rule floor_correct [THEN conjunct2])
  ultimately have "x < of_int (2 ^ nat (bitlen \<lfloor>x\<rfloor>))"
    by (rule less_le_trans [rotated])
  then have "x < 2 ^ nat (bitlen \<lfloor>x\<rfloor>)"
    by simp
  then show ?thesis
    using assms b by (simp add: ilog2_def pow2_def)
qed

lemma ilog2_bounds_lt_one:
  assumes "0 < x" and "x < 1"
  shows "pow2 (ilog2 x) \<le> x" and "x < pow2 (ilog2 x + 1)"
proof -
  define y where "y = 1 / x"
  define m where "m = \<lceil>y\<rceil> - 1"
  define j where "j = bitlen m"
  from assms have y1: "1 < y"
    by (simp add: y_def)
  have ypos: "0 < y"
    using y1 by simp
  have inv: "1 / y = x"
    using assms by (simp add: y_def)
  have m_lt: "of_int m < y"
    unfolding m_def using ceiling_correct [of y] by simp
  have y_le: "y \<le> of_int (m + 1)"
    unfolding m_def using ceiling_correct [of y] by simp
  have "1 < \<lceil>y\<rceil>"
    using y1 by (simp add: less_ceiling_iff)
  then have mpos: "0 < m"
    by (simp add: m_def)
  have jpos: "0 < j"
    unfolding j_def
    using mpos bitlen_nonneg [of m] bitlen_eq_zero_iff [of m] by linarith
  have lo: "2 ^ nat (j - 1) \<le> m" and hi: "m < 2 ^ nat j"
    unfolding j_def using bitlen_bounds [OF mpos] by simp_all
  have il: "ilog2 x = - j"
    using assms by (simp add: ilog2_def j_def m_def y_def)
  from hi have "m + 1 \<le> 2 ^ nat j"
    by simp
  then have "(of_int (m + 1) :: rat) \<le> of_int (2 ^ nat j)"
    by (simp only: of_int_le_iff)
  with y_le have yj: "y \<le> 2 ^ nat j"
    by simp
  have p1: "pow2 (- j) = 1 / 2 ^ nat j"
    using jpos by (simp add: pow2_nonpos_arg)
  have "1 / 2 ^ nat j \<le> 1 / y"
    using yj ypos by (simp add: frac_le)
  then have "1 / 2 ^ nat j \<le> x"
    by (simp only: inv)
  then show "pow2 (ilog2 x) \<le> x"
    by (simp only: il p1)
  from lo have "(of_int (2 ^ nat (j - 1)) :: rat) \<le> of_int m"
    by (simp only: of_int_le_iff)
  moreover have "(of_int (2 ^ nat (j - 1)) :: rat) = 2 ^ nat (j - 1)"
    by simp
  ultimately have "(2::rat) ^ nat (j - 1) \<le> of_int m"
    by (simp only:)
  then have jy: "2 ^ nat (j - 1) < y"
    using m_lt by (rule le_less_trans)
  have p2: "pow2 (- j + 1) = 1 / 2 ^ nat (j - 1)"
    using jpos pow2_nonpos_arg [of "- j + 1"] by simp
  have "1 / y < 1 / 2 ^ nat (j - 1)"
    using jy by (simp add: frac_less2)
  then have "x < 1 / 2 ^ nat (j - 1)"
    by (simp only: inv)
  then show "x < pow2 (ilog2 x + 1)"
    by (simp only: il p2)
qed

lemma ilog2_bounds:
  assumes "0 < x"
  shows "pow2 (ilog2 x) \<le> x \<and> x < pow2 (ilog2 x + 1)"
proof (cases "1 \<le> x")
  case True
  then show ?thesis
    using ilog2_ge_one(2) [OF True] ilog2_upper_ge_one [OF True] by simp
next
  case False
  then have "x < 1" by simp
  with assms show ?thesis
    using ilog2_bounds_lt_one [of x] by simp
qed

text \<open>The rounded integer is within one half, and never below an integer under the argument.\<close>

lemma round_half_even_near: "\<bar>of_int (round_half_even x) - x\<bar> \<le> 1 / 2"
proof -
  have "of_int \<lfloor>x\<rfloor> \<le> x" "x < of_int \<lfloor>x\<rfloor> + 1"
    by linarith+
  then show ?thesis
    by (auto simp add: round_half_even_def Let_def)
qed

lemma round_half_even_ge_floor: "\<lfloor>x\<rfloor> \<le> round_half_even x"
  by (simp add: round_half_even_def Let_def)

lemma round_half_even_ge:
  assumes "of_int n \<le> x"
  shows "n \<le> round_half_even x"
proof -
  from assms have "n \<le> \<lfloor>x\<rfloor>"
    by (simp add: le_floor_iff)
  with round_half_even_ge_floor [of x] show ?thesis
    by linarith
qed

text \<open>
  Rounding is symmetric, and a result that is at least 1 before rounding is at least 1
  after it (or an infinity): this is what clamps the confidence.
\<close>

lemma rnd_0: "rnd 0 = Fin 0"
  by (simp add: rnd_def)

lemma rnd_ge_one:
  assumes "1 \<le> r"
  shows "rnd r = PInf \<or> (\<exists>q. rnd r = Fin q \<and> 1 \<le> q)"
proof -
  define k where "k = ilog2 r"
  define e where "e = max (k - 52) (- 1074)"
  define m where "m = round_half_even (r / pow2 e)"
  define big where "big \<longleftrightarrow> e > 971 \<or> (e = 971 \<and> m \<ge> 2 ^ 53)"
  from assms have k0: "0 \<le> k" and kr: "pow2 k \<le> r"
    unfolding k_def by (rule ilog2_ge_one)+
  from k0 have e: "e = k - 52"
    by (simp add: e_def)
  have split: "pow2 k = pow2 52 * pow2 e"
    using pow2_add [of 52 e] by (simp add: e)
  have c: "pow2 52 = of_int (2 ^ 52)"
    by (simp add: pow2_def)
  from kr have "pow2 52 * pow2 e \<le> r"
    by (simp only: split)
  then have "pow2 52 \<le> r / pow2 e"
    using pow2_pos [of e] by (simp only: pos_le_divide_eq)
  then have "(of_int (2 ^ 52) :: rat) \<le> r / pow2 e"
    by (simp only: c)
  then have "2 ^ 52 \<le> m"
    unfolding m_def by (rule round_half_even_ge)
  then have "(of_int (2 ^ 52) :: rat) \<le> of_int m"
    by (simp only: of_int_le_iff)
  then have "pow2 52 * pow2 e \<le> of_int m * pow2 e"
    unfolding c using pow2_pos [of e] by (simp only: mult_le_cancel_right_pos)
  moreover have "1 \<le> pow2 k"
    using k0 by (simp add: pow2_def)
  ultimately have v1: "1 \<le> of_int m * pow2 e"
    by (simp only: split [symmetric])
  from assms have nz: "r \<noteq> 0" and pos: "0 < r" and ab: "\<bar>r\<bar> = r"
    by simp_all
  have "rnd r = (if big then (if r > 0 then PInf else NInf)
                 else Fin (if r > 0 then of_int m * pow2 e else - (of_int m * pow2 e)))"
    using nz unfolding rnd_def Let_def big_def m_def e_def k_def ab by (simp only: if_False)
  with pos have "rnd r = (if big then PInf else Fin (of_int m * pow2 e))"
    by simp
  with v1 show ?thesis
    by (cases big) simp_all
qed

lemma fgt_irrefl: "\<not> fgt x x"
  by (cases x) simp_all

lemma fmin_one_not_gt: "\<not> fgt (fmin x (Fin 1)) (Fin 1)"
  by (cases x) simp_all

lemma confidence_full:
  assumes "fge d (Fin (1 / 2))"
  shows "fmin (fmul d (Fin 2)) (Fin 1) = Fin 1"
proof (cases d)
  case (Fin q)
  with assms have "1 / 2 \<le> q"
    by (auto simp add: fge_def)
  then have "1 \<le> q * 2"
    by simp
  then have "rnd (q * 2) = PInf \<or> (\<exists>p. rnd (q * 2) = Fin p \<and> 1 \<le> p)"
    by (rule rnd_ge_one)
  with Fin show ?thesis
    by auto
next
  case PInf
  then show ?thesis by simp
next
  case NInf
  with assms show ?thesis by (simp add: fge_def)
next
  case NaN
  with assms show ?thesis by (simp add: fge_def)
qed



lemma rnd_minus: "rnd (- r) = fneg (rnd r)"
proof (cases "r = 0")
  case True
  then show ?thesis by (simp add: rnd_0)
next
  case False
  then have nz: "- r \<noteq> 0"
    by simp
  define e where "e = max (ilog2 \<bar>r\<bar> - 52) (- 1074)"
  define m where "m = round_half_even (\<bar>r\<bar> / pow2 e)"
  define big where "big \<longleftrightarrow> e > 971 \<or> (e = 971 \<and> m \<ge> 2 ^ 53)"
  define v where "v = of_int m * pow2 e"
  have A: "rnd r = (if big then (if r > 0 then PInf else NInf)
                    else Fin (if r > 0 then v else - v))"
    using False unfolding rnd_def Let_def v_def big_def m_def e_def by (simp only: if_False)
  have B: "rnd (- r) = (if big then (if - r > 0 then PInf else NInf)
                    else Fin (if - r > 0 then v else - v))"
    using nz unfolding rnd_def Let_def v_def big_def m_def e_def abs_minus_cancel
    by (simp only: if_False)
  show ?thesis
  proof (cases "0 < r")
    case True
    then have "\<not> 0 < - r" by simp
    with True show ?thesis
      unfolding A B by (cases big) simp_all
  next
    case neg: False
    with False have "0 < - r" by simp
    with neg show ?thesis
      unfolding A B by (cases big) simp_all
  qed
qed

text \<open>The statements of the handler against the specification-side notions.\<close>

lemma sum_from_foldl: "foldl (\<lambda>a b. fadd a b) acc xs = sum_from acc xs"
  by (induction xs arbitrary: acc) simp_all

lemma reduce_add64_sum_from: "reduce_add64 xs = sum_from (Fin 0) xs"
  by (simp add: reduce_add64_def sum_from_foldl)

lemma midPoint64_div: "midPoint64 vs = length vs div 2"
proof -
  have "\<lfloor>real (length vs) / real (2::nat)\<rfloor> = int (length vs div 2)"
    by (rule floor_divide_of_nat_eq)
  then show ?thesis by (simp add: midPoint64_def)
qed

lemma firstHalf64_take: "firstHalf64 vs = take (length vs div 2) vs"
  by (simp add: firstHalf64_def slice2_def midPoint64_div)

lemma secondHalf64_drop: "secondHalf64 vs = drop (length vs div 2) vs"
  by (simp add: secondHalf64_def slice1_def midPoint64_div)

lemma segment_mean64_guard:
  "(if length xs > 0 then fdiv_length (reduce_add64 xs) (length xs) else Fin 0)
     = segment_mean64 xs"
  by (cases xs) (simp_all add: segment_mean64_def arith_mean64_def reduce_add64_sum_from)

lemma firstHalfMean64_segment: "firstHalfMean64 vs = segment_mean64 (first_segment64 vs)"
  unfolding firstHalfMean64_def segment_mean64_guard
  by (simp add: firstHalf64_take first_segment64_def)

lemma secondHalfMean64_segment: "secondHalfMean64 vs = segment_mean64 (second_segment64 vs)"
  unfolding secondHalfMean64_def segment_mean64_guard
  by (simp add: secondHalf64_drop second_segment64_def)

lemma changeDetected64_raw_delta: "changeDetected64 vs = fgt (raw_delta64 vs) (rnd (1 / 10))"
  by (simp add: changeDetected64_def raw_delta64_def firstHalfMean64_segment
        secondHalfMean64_segment)

lemma confidence_val64_raw_delta:
  "confidence_val64 vs = fmin (fmul (raw_delta64 vs) (Fin 2)) (Fin 1)"
  by (simp add: confidence_val64_def raw_delta64_def firstHalfMean64_segment
        secondHalfMean64_segment)

lemma item64_rebuild: "\<lparr>date64 = date64 (p::item64), ndvi_mean64 = ndvi_mean64 p\<rparr> = p"
  by (cases p) simp

lemma timeseries64_filter:
  "timeseries64 features = sort_key date64 (map properties64 (valid_samples64 features))"
  by (simp add: timeseries64_def valid_samples64_def filter_map comp_def item64_rebuild)

lemma length_timeseries64:
  "length (timeseries64 features) = length (valid_samples64 features)"
  by (simp add: timeseries64_filter)

lemma timeseries64_Nil_iff:
  "timeseries64 features = [] \<longleftrightarrow> valid_samples64 features = []"
  using length_timeseries64 [of features] by (metis length_0_conv)

lemma timeseries64_non_null: "x \<in> set (timeseries64 features) \<Longrightarrow> ndvi_mean64 x \<noteq> None"
  by (auto simp add: timeseries64_def)

lemma length_series_values64:
  "length (series_values64 features) = length (valid_samples64 features)"
proof -
  have "filter (\<lambda>val. val \<noteq> None) (map ndvi_mean64 (timeseries64 features))
          = map ndvi_mean64 (timeseries64 features)"
    by (rule filter_True) (auto dest: timeseries64_non_null)
  then show ?thesis
    by (simp add: series_values64_def ndviValues64_def length_timeseries64)
qed

lemma api64_ok:
  "valid_samples64 features \<noteq> [] \<Longrightarrow>
     api_ndvi_timeseries64 a s e features =
       Inr \<lparr>aoi64 = a,
            ndvi_timeseries64 = timeseries64 features,
            summary64 = \<lparr>mean64 = meanNdvi64 (series_values64 features),
                         change_detected64 = changeDetected64 (series_values64 features),
                         confidence64 = confidence_val64 (series_values64 features),
                         total_observations64 = length (timeseries64 features),
                         date_range64 = \<lparr>start = s, end' = e\<rparr>\<rparr>\<rparr>"
  by (simp add: api_ndvi_timeseries64_def series_values64_def Let_def timeseries64_Nil_iff)

lemmas eval_defs64 = api_ndvi_timeseries64_def timeseries64_def ndviValues64_def
        meanNdvi64_def changeDetected64_def confidence_val64_def firstHalfMean64_def
        secondHalfMean64_def firstHalf64_def secondHalf64_def midPoint64_def slice1_def
        slice2_def reduce_add64_def fsub_def obs64_def Let_def valid_samples64_def
        series_values64_def

text \<open>
  The model at inputs where rounding decides the answer. The values 0.3 and 0.4, and
  0.7 and 0.8, are one tenth apart as decimals, but the doubles read from them are
  apart by more than the double read from 0.1, and the change flag is set. The values
  0.2 and 0.7 are one half apart as decimals, but the doubles are apart by less, and
  the confidence stays below 1.
\<close>

lemma run64_boundary_03_04:
  "api_ndvi_timeseries64 () 0 9 [obs64 1 (Some (3 / 10)), obs64 2 (Some (2 / 5))] =
     Inr \<lparr>aoi64 = (),
          ndvi_timeseries64 =
            [\<lparr>date64 = 1, ndvi_mean64 = Some (Fin (5404319552844595 / 18014398509481984))\<rparr>,
             \<lparr>date64 = 2, ndvi_mean64 = Some (Fin (3602879701896397 / 9007199254740992))\<rparr>],
          summary64 = \<lparr>mean64 = Fin (3152519739159347 / 9007199254740992),
                       change_detected64 = True,
                       confidence64 = Fin (1801439850948199 / 9007199254740992),
                       total_observations64 = 2,
                       date_range64 = \<lparr>start = 0, end' = 9\<rparr>\<rparr>\<rparr>"
proof -
  have r:
    "rnd (3 / 10) = Fin (5404319552844595 / 18014398509481984)"
    "rnd (2 / 5) = Fin (3602879701896397 / 9007199254740992)"
    "rnd (5404319552844595 / 18014398509481984) = Fin (5404319552844595 / 18014398509481984)"
    "rnd (12610078956637389 / 18014398509481984) = Fin (3152519739159347 / 4503599627370496)"
    "rnd (3152519739159347 / 9007199254740992) = Fin (3152519739159347 / 9007199254740992)"
    "rnd (3602879701896397 / 9007199254740992) = Fin (3602879701896397 / 9007199254740992)"
    "rnd (1801439850948199 / 18014398509481984) = Fin (1801439850948199 / 18014398509481984)"
    "rnd (1 / 10) = Fin (3602879701896397 / 36028797018963968)"
    "rnd (1801439850948199 / 9007199254740992) = Fin (1801439850948199 / 9007199254740992)"
    by code_simp+
  show ?thesis
    by (simp add: eval_defs64 r rnd_0 rnd_minus del: not_None_eq)
qed

lemma run64_boundary_07_08:
  "api_ndvi_timeseries64 () 0 9 [obs64 1 (Some (7 / 10)), obs64 2 (Some (4 / 5))] =
     Inr \<lparr>aoi64 = (),
          ndvi_timeseries64 =
            [\<lparr>date64 = 1, ndvi_mean64 = Some (Fin (3152519739159347 / 4503599627370496))\<rparr>,
             \<lparr>date64 = 2, ndvi_mean64 = Some (Fin (3602879701896397 / 4503599627370496))\<rparr>],
          summary64 = \<lparr>mean64 = Fin (3 / 4),
                       change_detected64 = True,
                       confidence64 = Fin (225179981368525 / 1125899906842624),
                       total_observations64 = 2,
                       date_range64 = \<lparr>start = 0, end' = 9\<rparr>\<rparr>\<rparr>"
proof -
  have r:
    "rnd (7 / 10) = Fin (3152519739159347 / 4503599627370496)"
    "rnd (4 / 5) = Fin (3602879701896397 / 4503599627370496)"
    "rnd (3152519739159347 / 4503599627370496) = Fin (3152519739159347 / 4503599627370496)"
    "rnd (3 / 2) = Fin (3 / 2)"
    "rnd (3 / 4) = Fin (3 / 4)"
    "rnd (3602879701896397 / 4503599627370496) = Fin (3602879701896397 / 4503599627370496)"
    "rnd (225179981368525 / 2251799813685248) = Fin (225179981368525 / 2251799813685248)"
    "rnd (1 / 10) = Fin (3602879701896397 / 36028797018963968)"
    "rnd (225179981368525 / 1125899906842624) = Fin (225179981368525 / 1125899906842624)"
    by code_simp+
  show ?thesis
    by (simp add: eval_defs64 r rnd_0 rnd_minus del: not_None_eq)
qed

lemma run64_clamp_02_07:
  "api_ndvi_timeseries64 () 0 9 [obs64 1 (Some (1 / 5)), obs64 2 (Some (7 / 10))] =
     Inr \<lparr>aoi64 = (),
          ndvi_timeseries64 =
            [\<lparr>date64 = 1, ndvi_mean64 = Some (Fin (3602879701896397 / 18014398509481984))\<rparr>,
             \<lparr>date64 = 2, ndvi_mean64 = Some (Fin (3152519739159347 / 4503599627370496))\<rparr>],
          summary64 = \<lparr>mean64 = Fin (2026619832316723 / 4503599627370496),
                       change_detected64 = True,
                       confidence64 = Fin (9007199254740991 / 9007199254740992),
                       total_observations64 = 2,
                       date_range64 = \<lparr>start = 0, end' = 9\<rparr>\<rparr>\<rparr>"
proof -
  have r:
    "rnd (1 / 5) = Fin (3602879701896397 / 18014398509481984)"
    "rnd (7 / 10) = Fin (3152519739159347 / 4503599627370496)"
    "rnd (3602879701896397 / 18014398509481984) = Fin (3602879701896397 / 18014398509481984)"
    "rnd (16212958658533785 / 18014398509481984) = Fin (2026619832316723 / 2251799813685248)"
    "rnd (2026619832316723 / 4503599627370496) = Fin (2026619832316723 / 4503599627370496)"
    "rnd (3152519739159347 / 4503599627370496) = Fin (3152519739159347 / 4503599627370496)"
    "rnd (9007199254740991 / 18014398509481984) = Fin (9007199254740991 / 18014398509481984)"
    "rnd (1 / 10) = Fin (3602879701896397 / 36028797018963968)"
    "rnd (9007199254740991 / 9007199254740992) = Fin (9007199254740991 / 9007199254740992)"
    by code_simp+
  show ?thesis
    by (simp add: eval_defs64 r rnd_0 rnd_minus del: not_None_eq)
qed

section \<open>Claims\<close>

text \<open>
  C1, as the handler has it. For an input with exactly one valid sample, of value \<open>v\<close>,
  the handler does not fail: it answers with \<open>mean = v\<close> and one observation. The first
  half is empty and its mean counts as 0, so the change flag is \<open>\<bar>v\<bar> > 0.1\<close> and the
  confidence is \<open>min (2 * \<bar>v\<bar>) 1\<close>; they are not fixed at false and 0.
\<close>

theorem C1_single_sample:
  assumes "valid_samples features = [f]" and "ndvi_mean (properties f) = Some v"
  shows "api_ndvi_timeseries a s e features =
     Inr \<lparr>aoi = a, ndvi_timeseries = [properties f],
          summary = \<lparr>mean = v, change_detected = (\<bar>v\<bar> > 0.1),
                     confidence = min (\<bar>v\<bar> * 2) 1,
                     total_observations = 1,
                     date_range = \<lparr>start = s, end' = e\<rparr>\<rparr>\<rparr>"
proof -
  have ts: "timeseries features = [properties f]"
    by (simp add: timeseries_filter assms(1))
  have vs: "ndviValues [properties f] = [v]"
    using assms(2) by (rule ndviValues_single)
  have halves: "firstHalf [v] = []" "secondHalf [v] = [v]"
    by (simp_all add: firstHalf_take secondHalf_drop)
  have "meanNdvi [v] = v" "firstHalfMean [v] = 0" "secondHalfMean [v] = v"
    by (simp_all add: meanNdvi_def firstHalfMean_def secondHalfMean_def halves reduce_add_def)
  then show ?thesis
    by (simp add: api_ndvi_timeseries_def ts vs changeDetected_def confidence_val_def)
qed

theorem C1_single_sample_witness:
  "valid_samples [obs 3 (Some 0.05), obs 4 None] = [obs 3 (Some 0.05)] \<and>
   ndvi_mean (properties (obs 3 (Some 0.05))) = Some 0.05 \<and>
   api_ndvi_timeseries () 0 9 [obs 3 (Some 0.05), obs 4 None] =
     Inr \<lparr>aoi = (), ndvi_timeseries = [\<lparr>date = 3, ndvi_mean = Some 0.05\<rparr>],
          summary = \<lparr>mean = 0.05, change_detected = False, confidence = 0.1,
                     total_observations = 1,
                     date_range = \<lparr>start = 0, end' = 9\<rparr>\<rparr>\<rparr>"
  using C1_single_sample [of "[obs 3 (Some 0.05), obs 4 None]" "obs 3 (Some 0.05)" "0.05" "()" 0 9]
  by (simp add: valid_samples_def obs_def del: not_None_eq)

text \<open>
  The single sample of value 0.5: the change flag is set and the confidence is 1, where
  the degenerate assessment would have false and 0.
\<close>

theorem C1_counterexample:
  "api_ndvi_timeseries () 0 9 [obs 1 (Some 0.5)] =
     Inr \<lparr>aoi = (),
          ndvi_timeseries = [\<lparr>date = 1, ndvi_mean = Some 0.5\<rparr>],
          summary = \<lparr>mean = 0.5, change_detected = True, confidence = 1,
                     total_observations = 1,
                     date_range = \<lparr>start = 0, end' = 9\<rparr>\<rparr>\<rparr>"
  by (simp add: eval_defs del: not_None_eq)

text \<open>
  C2. For every input with at least one valid sample the confidence of the answer is
  \<open>min (raw_delta * 2) 1\<close> in double precision, the scale factor being the constant 2
  of the handler; it never exceeds 1, and it is exactly 1 whenever the raw delta, as
  computed, is at least 0.5.
\<close>

theorem C2_confidence_clamped:
  assumes "valid_samples64 features \<noteq> []"
  shows "\<exists>r. api_ndvi_timeseries64 a s e features = Inr r \<and>
           confidence64 (summary64 r)
             = fmin (fmul (raw_delta64 (series_values64 features)) (Fin 2)) (Fin 1) \<and>
           \<not> fgt (confidence64 (summary64 r)) (Fin 1) \<and>
           (fge (raw_delta64 (series_values64 features)) (Fin (1 / 2)) \<longrightarrow>
              confidence64 (summary64 r) = Fin 1)"
  by (simp add: api64_ok [OF assms] confidence_val64_raw_delta fmin_one_not_gt
        confidence_full)

theorem C2_confidence_clamped_witness:
  "valid_samples64 [obs64 1 (Some 0), obs64 2 (Some (3 / 4))] \<noteq> [] \<and>
   raw_delta64 (series_values64 [obs64 1 (Some 0), obs64 2 (Some (3 / 4))]) = Fin (3 / 4) \<and>
   fge (Fin (3 / 4)) (Fin (1 / 2)) \<and>
   (\<exists>r. api_ndvi_timeseries64 () 0 9 [obs64 1 (Some 0), obs64 2 (Some (3 / 4))] = Inr r \<and>
        confidence64 (summary64 r) = Fin 1)"
proof -
  have r: "rnd (3 / 4) = Fin (3 / 4)"
    by code_simp
  have v: "valid_samples64 [obs64 1 (Some 0), obs64 2 (Some (3 / 4))] \<noteq> []"
    by (simp add: valid_samples64_def obs64_def del: not_None_eq)
  have sv: "series_values64 [obs64 1 (Some 0), obs64 2 (Some (3 / 4))] = [Fin 0, Fin (3 / 4)]"
    by (simp add: series_values64_def timeseries64_def ndviValues64_def obs64_def r rnd_0
          del: not_None_eq)
  have rd: "raw_delta64 [Fin 0, Fin (3 / 4)] = Fin (3 / 4)"
    by (simp add: raw_delta64_def first_segment64_def second_segment64_def segment_mean64_def
          arith_mean64_def fsub_def r rnd_0 rnd_minus)
  have ge: "fge (Fin (3 / 4)) (Fin (1 / 2))"
    by (simp add: fge_def)
  from C2_confidence_clamped [OF v, of "()" 0 9] v sv rd ge show ?thesis
    by auto
qed

text \<open>
  C3. For every input with at least two valid samples, the raw delta is the distance of
  the arithmetic means of the two segments, computed in double precision, and the
  change flag of the answer is set if and only if the raw delta is strictly greater
  than the double 0.1, the threshold of the handler; a raw delta that is exactly that
  double leaves the flag unset.
\<close>

theorem C3_change_detected_strict:
  assumes "length (valid_samples64 features) \<ge> 2" and "vs = series_values64 features"
  shows "\<exists>r. api_ndvi_timeseries64 a s e features = Inr r \<and>
           raw_delta64 vs
             = fabs (fsub (arith_mean64 (first_segment64 vs))
                          (arith_mean64 (second_segment64 vs))) \<and>
           (change_detected64 (summary64 r) \<longleftrightarrow> fgt (raw_delta64 vs) (rnd (1 / 10))) \<and>
           (raw_delta64 vs = rnd (1 / 10) \<longrightarrow> \<not> change_detected64 (summary64 r))"
proof -
  have ne: "valid_samples64 features \<noteq> []"
    using assms(1) by auto
  have len: "length vs \<ge> 2"
    using assms by (simp add: length_series_values64)
  then have "first_segment64 vs \<noteq> []" "second_segment64 vs \<noteq> []"
    by (auto simp add: first_segment64_def second_segment64_def)
  then have "segment_mean64 (first_segment64 vs) = arith_mean64 (first_segment64 vs)"
    "segment_mean64 (second_segment64 vs) = arith_mean64 (second_segment64 vs)"
    by (simp_all add: segment_mean64_def split: list.splits)
  then have "raw_delta64 vs
      = fabs (fsub (arith_mean64 (first_segment64 vs)) (arith_mean64 (second_segment64 vs)))"
    by (simp add: raw_delta64_def)
  then show ?thesis
    by (simp add: api64_ok [OF ne] changeDetected64_raw_delta assms(2) fgt_irrefl)
qed

theorem C3_change_detected_strict_witness:
  "length (valid_samples64 [obs64 1 (Some 0), obs64 2 (Some (1 / 10))]) \<ge> 2 \<and>
   raw_delta64 (series_values64 [obs64 1 (Some 0), obs64 2 (Some (1 / 10))]) = rnd (1 / 10) \<and>
   (\<exists>r. api_ndvi_timeseries64 () 0 9 [obs64 1 (Some 0), obs64 2 (Some (1 / 10))] = Inr r \<and>
        \<not> change_detected64 (summary64 r))"
proof -
  have r: "rnd (1 / 10) = Fin (3602879701896397 / 36028797018963968)"
    "rnd (3602879701896397 / 36028797018963968) = Fin (3602879701896397 / 36028797018963968)"
    by code_simp+
  have v: "length (valid_samples64 [obs64 1 (Some 0), obs64 2 (Some (1 / 10))]) \<ge> 2"
    by (simp add: valid_samples64_def obs64_def del: not_None_eq)
  have sv: "series_values64 [obs64 1 (Some 0), obs64 2 (Some (1 / 10))]
      = [Fin 0, Fin (3602879701896397 / 36028797018963968)]"
    by (simp add: series_values64_def timeseries64_def ndviValues64_def obs64_def r rnd_0
          del: not_None_eq)
  have rd: "raw_delta64 [Fin 0, Fin (3602879701896397 / 36028797018963968)] = rnd (1 / 10)"
    by (simp add: raw_delta64_def first_segment64_def second_segment64_def segment_mean64_def
          arith_mean64_def fsub_def r rnd_0 rnd_minus)
  from C3_change_detected_strict [OF v sv [symmetric], of "()" 0 9] v sv rd show ?thesis
    by auto
qed

text \<open>
  C4. A series of \<open>n\<close> values is split at the index \<open>floor (n / 2)\<close>: the first half is
  the first \<open>floor (n / 2)\<close> values and the second half is the rest, so for odd \<open>n\<close> the
  second half is longer by one; the mean of a half that is not empty is its arithmetic
  mean. On the values 0.1, 0.1, 0.5, 0.5 the half means are 0.1 and 0.5, the raw delta is
  0.4, and the answer has the change flag set, confidence 0.8 and mean 0.3.
\<close>

theorem C4_midpoint_split:
  "firstHalf vs = take (length vs div 2) vs \<and>
   secondHalf vs = drop (length vs div 2) vs \<and>
   firstHalf vs @ secondHalf vs = vs \<and>
   (odd (length vs) \<longrightarrow> length (secondHalf vs) = length (firstHalf vs) + 1) \<and>
   (even (length vs) \<longrightarrow> length (secondHalf vs) = length (firstHalf vs)) \<and>
   (firstHalf vs \<noteq> [] \<longrightarrow> firstHalfMean vs = arith_mean (firstHalf vs)) \<and>
   (secondHalf vs \<noteq> [] \<longrightarrow> secondHalfMean vs = arith_mean (secondHalf vs)) \<and>
   series_values [obs 1 (Some 0.1), obs 2 (Some 0.1), obs 3 (Some 0.5), obs 4 (Some 0.5)]
     = [0.1, 0.1, 0.5, 0.5] \<and>
   firstHalfMean [0.1, 0.1, 0.5, 0.5] = 0.1 \<and>
   secondHalfMean [0.1, 0.1, 0.5, 0.5] = 0.5 \<and>
   raw_delta [0.1, 0.1, 0.5, 0.5] = 0.4 \<and>
   api_ndvi_timeseries a s e
       [obs 1 (Some 0.1), obs 2 (Some 0.1), obs 3 (Some 0.5), obs 4 (Some 0.5)] =
     Inr \<lparr>aoi = a,
          ndvi_timeseries =
            [\<lparr>date = 1, ndvi_mean = Some 0.1\<rparr>, \<lparr>date = 2, ndvi_mean = Some 0.1\<rparr>,
             \<lparr>date = 3, ndvi_mean = Some 0.5\<rparr>, \<lparr>date = 4, ndvi_mean = Some 0.5\<rparr>],
          summary = \<lparr>mean = 0.3, change_detected = True, confidence = 0.8,
                     total_observations = 4,
                     date_range = \<lparr>start = s, end' = e\<rparr>\<rparr>\<rparr>"
proof -
  have split: "firstHalf vs = take (length vs div 2) vs"
    "secondHalf vs = drop (length vs div 2) vs"
    by (rule firstHalf_take, rule secondHalf_drop)
  have glue: "firstHalf vs @ secondHalf vs = vs"
    by (simp add: split)
  have odd_len: "odd (length vs) \<longrightarrow> length (secondHalf vs) = length (firstHalf vs) + 1"
    unfolding length_firstHalf length_secondHalf by presburger
  have even_len: "even (length vs) \<longrightarrow> length (secondHalf vs) = length (firstHalf vs)"
    unfolding length_firstHalf length_secondHalf by presburger
  have m1: "firstHalf vs \<noteq> [] \<longrightarrow> firstHalfMean vs = arith_mean (firstHalf vs)"
    by (simp add: firstHalfMean_def arith_mean_def reduce_add_sum_list)
  have m2: "secondHalf vs \<noteq> [] \<longrightarrow> secondHalfMean vs = arith_mean (secondHalf vs)"
    by (simp add: secondHalfMean_def arith_mean_def reduce_add_sum_list)
  have sv: "series_values [obs 1 (Some 0.1), obs 2 (Some 0.1), obs 3 (Some 0.5), obs 4 (Some 0.5)]
     = [0.1, 0.1, 0.5, 0.5]"
    by (simp add: series_values_def timeseries_def ndviValues_def obs_def del: not_None_eq)
  have h1: "firstHalfMean [0.1, 0.1, 0.5, 0.5] = 0.1"
    by (simp add: firstHalfMean_def firstHalf_def midPoint_def slice2_def reduce_add_def)
  have h2: "secondHalfMean [0.1, 0.1, 0.5, 0.5] = 0.5"
    by (simp add: secondHalfMean_def secondHalf_def midPoint_def slice1_def reduce_add_def)
  have rd: "raw_delta [0.1, 0.1, 0.5, 0.5] = 0.4"
    by (simp add: raw_delta_def first_segment_def second_segment_def segment_mean_def
          arith_mean_def)
  have run: "api_ndvi_timeseries a s e
       [obs 1 (Some 0.1), obs 2 (Some 0.1), obs 3 (Some 0.5), obs 4 (Some 0.5)] =
     Inr \<lparr>aoi = a,
          ndvi_timeseries =
            [\<lparr>date = 1, ndvi_mean = Some 0.1\<rparr>, \<lparr>date = 2, ndvi_mean = Some 0.1\<rparr>,
             \<lparr>date = 3, ndvi_mean = Some 0.5\<rparr>, \<lparr>date = 4, ndvi_mean = Some 0.5\<rparr>],
          summary = \<lparr>mean = 0.3, change_detected = True, confidence = 0.8,
                     total_observations = 4,
                     date_range = \<lparr>start = s, end' = e\<rparr>\<rparr>\<rparr>"
    by (simp add: eval_defs del: not_None_eq)
  from split glue odd_len even_len m1 m2 sv h1 h2 rd run show ?thesis
    by blast
qed

theorem C4_midpoint_split_witness:
  "odd (length [0.2, 0.4, 0.9 :: real]) \<and>
   firstHalf [0.2, 0.4, 0.9] = [0.2] \<and> secondHalf [0.2, 0.4, 0.9] = [0.4, 0.9] \<and>
   length (secondHalf [0.2, 0.4, 0.9]) = length (firstHalf [0.2, 0.4, 0.9]) + 1 \<and>
   firstHalfMean [0.2, 0.4, 0.9] = arith_mean [0.2] \<and>
   secondHalfMean [0.2, 0.4, 0.9] = arith_mean [0.4, 0.9]"
proof -
  have halves: "firstHalf [0.2, 0.4, 0.9 :: real] = [0.2]"
    "secondHalf [0.2, 0.4, 0.9 :: real] = [0.4, 0.9]"
    by (simp_all add: firstHalf_def secondHalf_def midPoint_def slice1_def slice2_def)
  from C4_midpoint_split [of "[0.2, 0.4, 0.9]" "()" 0 9] halves show ?thesis
    by simp
qed

text \<open>
  C5. When no sample with a non-null value remains after filtering (also when every
  sample of the input has a null value, and when the input is empty), the handler
  answers with the no-data error and returns no summary at all.
\<close>

theorem C5_no_valid_samples_error:
  "valid_samples features = [] \<Longrightarrow>
     api_ndvi_timeseries a s e features = Inl NoSatelliteData"
  by (simp add: api_ndvi_timeseries_def timeseries_filter)

theorem C5_no_valid_samples_error_witness:
  "valid_samples [obs 1 None, obs 2 None] = [] \<and>
   api_ndvi_timeseries () 0 9 [obs 1 None, obs 2 None] = Inl NoSatelliteData"
  using C5_no_valid_samples_error [of "[obs 1 None, obs 2 None]" "()" 0 9]
  by (simp add: valid_samples_def obs_def)

text \<open>
  C6, as the handler has it. Normalization only filters and sorts: the series holds
  every valid sample of the input, and the samples that share a date all stay in it, in
  the order the input has them. The two samples 0.2 and 0.4 at one date \<open>d\<close> give a
  series of two entries, 0.2 and 0.4, both at \<open>d\<close>.
\<close>

theorem C6_duplicates_kept:
  "mset (timeseries features) = mset (map properties (valid_samples features)) \<and>
   (\<forall>k. filter (\<lambda>x. date x = k) (timeseries features)
        = filter (\<lambda>x. date x = k) (map properties (valid_samples features))) \<and>
   timeseries [obs d (Some 0.2), obs d (Some 0.4)]
     = [\<lparr>date = d, ndvi_mean = Some 0.2\<rparr>, \<lparr>date = d, ndvi_mean = Some 0.4\<rparr>]"
  by (simp add: timeseries_filter sort_key_stable)
     (simp add: valid_samples_def obs_def del: not_None_eq)

text \<open>
  Two samples at date 5: the series has both of them and is not the one averaged sample.
\<close>

theorem C6_counterexample:
  "timeseries [obs 5 (Some 0.2), obs 5 (Some 0.4)]
     = [\<lparr>date = 5, ndvi_mean = Some 0.2\<rparr>, \<lparr>date = 5, ndvi_mean = Some 0.4\<rparr>] \<and>
   timeseries [obs 5 (Some 0.2), obs 5 (Some 0.4)] \<noteq> [\<lparr>date = 5, ndvi_mean = Some 0.3\<rparr>]"
  by (simp add: timeseries_def obs_def del: not_None_eq)

text \<open>
  C7, as the handler has it. In every answer that is not an error, \<open>date_range\<close> is the
  pair \<open>startDate\<close>, \<open>endDate\<close> of the request, and \<open>total_observations\<close> is the number
  of valid samples, which is the number of values the statistics are computed from and
  the length of the series sent back.
\<close>

theorem C7_range_and_count:
  assumes "api_ndvi_timeseries a s e features = Inr r"
  shows "date_range (summary r) = \<lparr>start = s, end' = e\<rparr> \<and>
         total_observations (summary r) = length (valid_samples features) \<and>
         total_observations (summary r) = length (series_values features) \<and>
         total_observations (summary r) = length (ndvi_timeseries r)"
proof -
  have "valid_samples features \<noteq> []"
    using assms by (rule api_Inr_valid)
  from api_ok [OF this, of a s e] assms show ?thesis
    by (auto simp add: length_series_values length_timeseries)
qed

theorem C7_range_and_count_witness:
  "api_ndvi_timeseries () 100 200 [obs 120 (Some 0.3), obs 130 None, obs 180 (Some 0.4)]
     = Inr \<lparr>aoi = (),
          ndvi_timeseries =
            [\<lparr>date = 120, ndvi_mean = Some 0.3\<rparr>, \<lparr>date = 180, ndvi_mean = Some 0.4\<rparr>],
          summary = \<lparr>mean = 0.35, change_detected = False, confidence = 0.2,
                     total_observations = 2,
                     date_range = \<lparr>start = 100, end' = 200\<rparr>\<rparr>\<rparr> \<and>
   length (valid_samples [obs 120 (Some 0.3), obs 130 None, obs 180 (Some 0.4)]) = 2"
proof -
  have run: "api_ndvi_timeseries () 100 200 [obs 120 (Some 0.3), obs 130 None, obs 180 (Some 0.4)]
     = Inr \<lparr>aoi = (),
          ndvi_timeseries =
            [\<lparr>date = 120, ndvi_mean = Some 0.3\<rparr>, \<lparr>date = 180, ndvi_mean = Some 0.4\<rparr>],
          summary = \<lparr>mean = 0.35, change_detected = False, confidence = 0.2,
                     total_observations = 2,
                     date_range = \<lparr>start = 100, end' = 200\<rparr>\<rparr>\<rparr>"
    by (simp add: eval_defs del: not_None_eq)
  from C7_range_and_count [OF run] run show ?thesis
    by simp
qed

text \<open>
  A request for the dates 100 to 200 whose only sample is at date 150: the range of the
  answer is 100 to 200, not 150 to 150.
\<close>

theorem C7_counterexample:
  "timeseries [obs 150 (Some 0.5)] = [\<lparr>date = 150, ndvi_mean = Some 0.5\<rparr>] \<and>
   api_ndvi_timeseries () 100 200 [obs 150 (Some 0.5)] =
     Inr \<lparr>aoi = (),
          ndvi_timeseries = [\<lparr>date = 150, ndvi_mean = Some 0.5\<rparr>],
          summary = \<lparr>mean = 0.5, change_detected = True, confidence = 1,
                     total_observations = 1,
                     date_range = \<lparr>start = 100, end' = 200\<rparr>\<rparr>\<rparr>"
  by (simp add: eval_defs del: not_None_eq)

text \<open>
  C8, as the handler has it. When the valid samples of an input that share a date also
  share their value, every permutation of the input gets the same answer: the sorted
  series is the same list, so every statistic is computed from the same values in the
  same order.
\<close>

theorem C8_permutation_invariant:
  assumes "mset P = mset S"
    and "inj_on (\<lambda>f. date (properties f)) (set (valid_samples S))"
  shows "api_ndvi_timeseries a s e P = api_ndvi_timeseries a s e S"
  by (simp add: api_ndvi_timeseries_def timeseries_perm_same_value [OF assms])

theorem C8_permutation_invariant_witness:
  "mset [obs 2 (Some 0.1), obs 3 None, obs 1 (Some 0.5), obs 1 (Some 0.5)]
     = mset [obs 1 (Some 0.5), obs 2 (Some 0.1), obs 1 (Some 0.5), obs 3 None] \<and>
   inj_on (\<lambda>f. date (properties f))
      (set (valid_samples [obs 1 (Some 0.5), obs 2 (Some 0.1), obs 1 (Some 0.5), obs 3 None])) \<and>
   \<not> distinct (map (\<lambda>f. date (properties f))
      (valid_samples [obs 1 (Some 0.5), obs 2 (Some 0.1), obs 1 (Some 0.5), obs 3 None])) \<and>
   api_ndvi_timeseries () 0 9 [obs 2 (Some 0.1), obs 3 None, obs 1 (Some 0.5), obs 1 (Some 0.5)]
     = api_ndvi_timeseries () 0 9 [obs 1 (Some 0.5), obs 2 (Some 0.1), obs 1 (Some 0.5), obs 3 None]"
proof -
  have p: "mset [obs 2 (Some 0.1), obs 3 None, obs 1 (Some 0.5), obs 1 (Some 0.5)]
     = mset [obs 1 (Some 0.5), obs 2 (Some 0.1), obs 1 (Some 0.5), obs 3 None]"
    by (simp add: add_mset_commute)
  have i: "inj_on (\<lambda>f. date (properties f))
      (set (valid_samples [obs 1 (Some 0.5), obs 2 (Some 0.1), obs 1 (Some 0.5), obs 3 None]))"
    by (auto simp add: inj_on_def valid_samples_def obs_def)
  have d: "\<not> distinct (map (\<lambda>f. date (properties f))
      (valid_samples [obs 1 (Some 0.5), obs 2 (Some 0.1), obs 1 (Some 0.5), obs 3 None]))"
    by (simp add: valid_samples_def obs_def del: not_None_eq)
  from C8_permutation_invariant [OF p i, of "()" 0 9] p i d show ?thesis
    by simp
qed

text \<open>
  Two samples share date 1, with values 0 and 0.125, and a third is at date 2. The sort
  keeps the two in the order of the input, so swapping them moves a different value
  into the first half: the change flag is set for one order and unset for the other.
\<close>

theorem C8_counterexample:
  "mset [obs 1 (Some 0.125), obs 1 (Some 0), obs 2 (Some 0.125)]
     = mset [obs 1 (Some 0), obs 1 (Some 0.125), obs 2 (Some 0.125)] \<and>
   api_ndvi_timeseries () 0 9 [obs 1 (Some 0), obs 1 (Some 0.125), obs 2 (Some 0.125)] =
     Inr \<lparr>aoi = (),
          ndvi_timeseries =
            [\<lparr>date = 1, ndvi_mean = Some 0\<rparr>, \<lparr>date = 1, ndvi_mean = Some 0.125\<rparr>,
             \<lparr>date = 2, ndvi_mean = Some 0.125\<rparr>],
          summary = \<lparr>mean = 1 / 12, change_detected = True, confidence = 0.25,
                     total_observations = 3,
                     date_range = \<lparr>start = 0, end' = 9\<rparr>\<rparr>\<rparr> \<and>
   api_ndvi_timeseries () 0 9 [obs 1 (Some 0.125), obs 1 (Some 0), obs 2 (Some 0.125)] =
     Inr \<lparr>aoi = (),
          ndvi_timeseries =
            [\<lparr>date = 1, ndvi_mean = Some 0.125\<rparr>, \<lparr>date = 1, ndvi_mean = Some 0\<rparr>,
             \<lparr>date = 2, ndvi_mean = Some 0.125\<rparr>],
          summary = \<lparr>mean = 1 / 12, change_detected = False, confidence = 0.125,
                     total_observations = 3,
                     date_range = \<lparr>start = 0, end' = 9\<rparr>\<rparr>\<rparr>"
proof -
  have p: "mset [obs 1 (Some 0.125), obs 1 (Some 0), obs 2 (Some 0.125)]
     = mset [obs 1 (Some 0), obs 1 (Some 0.125), obs 2 (Some 0.125)]"
    by (simp add: add_mset_commute)
  have r1: "api_ndvi_timeseries () 0 9 [obs 1 (Some 0), obs 1 (Some 0.125), obs 2 (Some 0.125)] =
     Inr \<lparr>aoi = (),
          ndvi_timeseries =
            [\<lparr>date = 1, ndvi_mean = Some 0\<rparr>, \<lparr>date = 1, ndvi_mean = Some 0.125\<rparr>,
             \<lparr>date = 2, ndvi_mean = Some 0.125\<rparr>],
          summary = \<lparr>mean = 1 / 12, change_detected = True, confidence = 0.25,
                     total_observations = 3,
                     date_range = \<lparr>start = 0, end' = 9\<rparr>\<rparr>\<rparr>"
    by (simp add: eval_defs del: not_None_eq)
  have r2: "api_ndvi_timeseries () 0 9 [obs 1 (Some 0.125), obs 1 (Some 0), obs 2 (Some 0.125)] =
     Inr \<lparr>aoi = (),
          ndvi_timeseries =
            [\<lparr>date = 1, ndvi_mean = Some 0.125\<rparr>, \<lparr>date = 1, ndvi_mean = Some 0\<rparr>,
             \<lparr>date = 2, ndvi_mean = Some 0.125\<rparr>],
          summary = \<lparr>mean = 1 / 12, change_detected = False, confidence = 0.125,
                     total_observations = 3,
                     date_range = \<lparr>start = 0, end' = 9\<rparr>\<rparr>\<rparr>"
    by (simp add: eval_defs del: not_None_eq)
  from p r1 r2 show ?thesis
    by blast
qed

text \<open>
  C9. In every answer that is not an error, the change flag is set if and only if the
  confidence is strictly greater than 0.2: the flag is \<open>delta > 0.1\<close> and the confidence
  is \<open>min (2 * delta) 1\<close> for the same \<open>delta\<close>.
\<close>

theorem C9_flag_iff_confidence:
  assumes "api_ndvi_timeseries a s e features = Inr r"
  shows "change_detected (summary r) \<longleftrightarrow> confidence (summary r) > 0.2"
proof -
  have "valid_samples features \<noteq> []"
    using assms by (rule api_Inr_valid)
  from api_ok [OF this, of a s e] assms
  have "change_detected (summary r) = changeDetected (series_values features)"
    and "confidence (summary r) = confidence_val (series_values features)"
    by auto
  then show ?thesis
    by (auto simp add: changeDetected_def confidence_val_def min_def)
qed

theorem C9_flag_iff_confidence_witness:
  "api_ndvi_timeseries () 0 9 [obs 1 (Some 0.2), obs 2 (Some 0.35)] =
     Inr \<lparr>aoi = (),
          ndvi_timeseries =
            [\<lparr>date = 1, ndvi_mean = Some 0.2\<rparr>, \<lparr>date = 2, ndvi_mean = Some 0.35\<rparr>],
          summary = \<lparr>mean = 0.275, change_detected = True, confidence = 0.3,
                     total_observations = 2,
                     date_range = \<lparr>start = 0, end' = 9\<rparr>\<rparr>\<rparr> \<and>
   (0.3 :: real) > 0.2"
proof -
  have run: "api_ndvi_timeseries () 0 9 [obs 1 (Some 0.2), obs 2 (Some 0.35)] =
     Inr \<lparr>aoi = (),
          ndvi_timeseries =
            [\<lparr>date = 1, ndvi_mean = Some 0.2\<rparr>, \<lparr>date = 2, ndvi_mean = Some 0.35\<rparr>],
          summary = \<lparr>mean = 0.275, change_detected = True, confidence = 0.3,
                     total_observations = 2,
                     date_range = \<lparr>start = 0, end' = 9\<rparr>\<rparr>\<rparr>"
    by (simp add: eval_defs del: not_None_eq)
  from C9_flag_iff_confidence [OF run] run show ?thesis
    by simp
qed



end
